theory Spec2Isabelle
  imports Main "HOL-Library.DAList"
begin

section \<open>The configuration builder of http-swagger\<close>

text \<open>
  This theory embeds \<^verbatim>\<open>swagger_config.go\<close>: the struct \<^verbatim>\<open>Config\<close>, the nineteen
  functional options and the constructor \<^verbatim>\<open>newConfig\<close>.

  \<^item> A Go \<^verbatim>\<open>string\<close> is a byte sequence: a HOL \<open>string\<close>.
  \<^item> \<^verbatim>\<open>template.JS\<close> is declared \<^verbatim>\<open>type JS string\<close>: a type of its own with the
    representation of a string. It is the datatype \<open>JS\<close>, and the conversion
    \<^verbatim>\<open>template.JS(v)\<close> is its constructor.
  \<^item> A Go \<^verbatim>\<open>int\<close> is only stored and read back here, never computed with, so it is
    an \<open>int\<close>: every machine integer is one.
  \<^item> A slice is a list. The \<^verbatim>\<open>nil\<close> slice is the empty list: \<^verbatim>\<open>len\<close>,
    \<^verbatim>\<open>range\<close>, \<^verbatim>\<open>append\<close> and an index store treat the two alike.
  \<^item> A map value is \<open>('k \<rightharpoonup> 'v) option\<close>, where \<open>None\<close> is the \<^verbatim>\<open>nil\<close> map: a store
    into the \<^verbatim>\<open>nil\<close> map panics, a store into an empty map does not.
  \<^item> A map that is ranged over is given as the sequence of its entries in the order in
    which \<^verbatim>\<open>range\<close> visits them. Each key occurs once, which is the type
    \<open>('k, 'v) alist\<close>; Go leaves the order open, and so does a statement about every
    \<open>alist\<close>.
  \<^item> A run-time panic is a value of \<open>panic\<close>, and a function that may panic returns
    \<open>panic + 'a\<close>.
  \<^item> An option is a Go function \<^verbatim>\<open>func(*Config)\<close> that mutates the record it is handed:
    here a function from the record to the mutated record, or to a panic. Function
    values are taken to be non-nil.
\<close>

subsection \<open>Data\<close>

datatype JS = JS string

datatype panic =
    IndexOutOfRange  \<comment> \<open>index store beyond the length of a slice\<close>
  | AssignNilMap     \<comment> \<open>assignment to an entry of the nil map\<close>

record URLsConfig =
  URL :: string
  Name :: string

record Config =
  URL :: string
  URLs :: "URLsConfig list"
  DocExpansion :: string
  DeepLinking :: bool
  DomID :: string
  PersistAuthorization :: bool
  DisplayOperationID :: bool
  DefaultModelsExpandDepth :: int
  DefaultModelExpandDepth :: int
  DefaultModelRendering :: string
  DisplayRequestDuration :: bool
  ShowExtensions :: bool
  ShowCommonExtensions :: bool
  SupportedSubmitMethods :: "string list"
  TryItOutEnabled :: bool
  InstanceName :: string
  BeforeScript :: JS
  AfterScript :: JS
  Plugins :: "JS list"
  UIConfig :: "(JS \<rightharpoonup> JS) option"

text \<open>
  From here on the unqualified names \<open>URL\<close>, \<open>URLs\<close>, ... are the option functions, as
  in the Go package; a field is written with its record, \<open>Config.URL c\<close> for
  \<^verbatim>\<open>c.URL\<close>.
\<close>

text \<open>
  Modelled from the spec: the constant \<^verbatim>\<open>swag.Name\<close> is declared in the imported
  package \<^verbatim>\<open>github.com/swaggo/swag\<close>, whose source is not part of this repository.
  The spec calls it the process-wide default name; the comment on \<^verbatim>\<open>InstanceName\<close>
  in \<^verbatim>\<open>swagger_config.go\<close> gives its value.
\<close>

definition swag_Name :: string where
  "swag_Name = ''swagger''"

subsection \<open>Stores that may panic\<close>

definition slice_store :: "'a list \<Rightarrow> nat \<Rightarrow> 'a \<Rightarrow> panic + 'a list" where
  \<comment> \<open>\<^verbatim>\<open>vs[i] = v\<close> on a slice\<close>
  "slice_store vs i v = (if i < length vs then Inr (vs[i := v]) else Inl IndexOutOfRange)"

definition map_store :: "('k \<rightharpoonup> 'v) option \<Rightarrow> 'k \<Rightarrow> 'v \<Rightarrow> panic + ('k \<rightharpoonup> 'v) option" where
  \<comment> \<open>\<^verbatim>\<open>vs[k] = v\<close> on a map\<close>
  "map_store vs k v = (case vs of None \<Rightarrow> Inl AssignNilMap | Some m \<Rightarrow> Inr (Some (m(k \<mapsto> v))))"

subsection \<open>The options\<close>

definition URL :: "string \<Rightarrow> Config \<Rightarrow> panic + Config" where
  "URL url c = Inr (c\<lparr>Config.URL := url\<rparr>)"

definition URLs :: "string \<Rightarrow> string \<Rightarrow> Config \<Rightarrow> panic + Config" where
  "URLs url name c =
     Inr (c\<lparr>Config.URLs := Config.URLs c @ [\<lparr>URLsConfig.URL = url, Name = name\<rparr>]\<rparr>)"

definition DeepLinking :: "bool \<Rightarrow> Config \<Rightarrow> panic + Config" where
  "DeepLinking deepLinking c = Inr (c\<lparr>Config.DeepLinking := deepLinking\<rparr>)"

definition DocExpansion :: "string \<Rightarrow> Config \<Rightarrow> panic + Config" where
  "DocExpansion docExpansion c = Inr (c\<lparr>Config.DocExpansion := docExpansion\<rparr>)"

definition DomID :: "string \<Rightarrow> Config \<Rightarrow> panic + Config" where
  "DomID domID c = Inr (c\<lparr>Config.DomID := domID\<rparr>)"

definition InstanceName :: "string \<Rightarrow> Config \<Rightarrow> panic + Config" where
  "InstanceName name c = Inr (c\<lparr>Config.InstanceName := name\<rparr>)"

definition PersistAuthorization :: "bool \<Rightarrow> Config \<Rightarrow> panic + Config" where
  "PersistAuthorization persistAuthorization c =
     Inr (c\<lparr>Config.PersistAuthorization := persistAuthorization\<rparr>)"

definition DisplayOperationID :: "bool \<Rightarrow> Config \<Rightarrow> panic + Config" where
  "DisplayOperationID displayOperationID c =
     Inr (c\<lparr>Config.DisplayOperationID := displayOperationID\<rparr>)"

definition DefaultModelsExpandDepth :: "int \<Rightarrow> Config \<Rightarrow> panic + Config" where
  "DefaultModelsExpandDepth defaultModelsExpandDepth c =
     Inr (c\<lparr>Config.DefaultModelsExpandDepth := defaultModelsExpandDepth\<rparr>)"

definition DefaultModelExpandDepth :: "int \<Rightarrow> Config \<Rightarrow> panic + Config" where
  "DefaultModelExpandDepth defaultModelExpandDepth c =
     Inr (c\<lparr>Config.DefaultModelExpandDepth := defaultModelExpandDepth\<rparr>)"

definition DefaultModelRendering :: "string \<Rightarrow> Config \<Rightarrow> panic + Config" where
  "DefaultModelRendering defaultModelRendering c =
     Inr (c\<lparr>Config.DefaultModelRendering := defaultModelRendering\<rparr>)"

definition DisplayRequestDuration :: "bool \<Rightarrow> Config \<Rightarrow> panic + Config" where
  "DisplayRequestDuration displayRequestDuration c =
     Inr (c\<lparr>Config.DisplayRequestDuration := displayRequestDuration\<rparr>)"

definition ShowExtensions :: "bool \<Rightarrow> Config \<Rightarrow> panic + Config" where
  "ShowExtensions showExtensions c = Inr (c\<lparr>Config.ShowExtensions := showExtensions\<rparr>)"

definition ShowCommonExtensions :: "bool \<Rightarrow> Config \<Rightarrow> panic + Config" where
  "ShowCommonExtensions showCommonExtensions c =
     Inr (c\<lparr>Config.ShowCommonExtensions := showCommonExtensions\<rparr>)"

definition SupportedSubmitMethods :: "string list \<Rightarrow> Config \<Rightarrow> panic + Config" where
  \<comment> \<open>the variadic arguments arrive as one slice\<close>
  "SupportedSubmitMethods supportedSubmitMethods c =
     Inr (c\<lparr>Config.SupportedSubmitMethods := supportedSubmitMethods\<rparr>)"

text \<open>
  \<^verbatim>\<open>for i, v := range plugins { vs[i] = template.JS(v) }\<close>: the loop of \<^verbatim>\<open>Plugins\<close>,
  with the index \<open>i\<close> of the element it is about to visit.
\<close>

fun range_plugins :: "nat \<Rightarrow> string list \<Rightarrow> JS list \<Rightarrow> panic + JS list" where
  "range_plugins i [] vs = Inr vs"
| "range_plugins i (v # plugins) vs =
     (case slice_store vs i (JS v) of
        Inl e \<Rightarrow> Inl e
      | Inr vs' \<Rightarrow> range_plugins (Suc i) plugins vs')"

definition Plugins :: "string list \<Rightarrow> Config \<Rightarrow> panic + Config" where
  \<comment> \<open>\<^verbatim>\<open>make([]template.JS, len(plugins))\<close> is that many zero values, the empty string\<close>
  "Plugins plugins c =
     (case range_plugins 0 plugins (replicate (length plugins) (JS '''')) of
        Inl e \<Rightarrow> Inl e
      | Inr vs \<Rightarrow> Inr (c\<lparr>Config.Plugins := vs\<rparr>))"

text \<open>
  \<^verbatim>\<open>for k, v := range props { vs[template.JS(k)] = template.JS(v) }\<close>: the loop of
  \<^verbatim>\<open>UIConfig\<close>, over the entries still to be visited.
\<close>

fun range_props :: "(string \<times> string) list \<Rightarrow> (JS \<rightharpoonup> JS) option \<Rightarrow> panic + (JS \<rightharpoonup> JS) option" where
  "range_props [] vs = Inr vs"
| "range_props ((k, v) # props) vs =
     (case map_store vs (JS k) (JS v) of
        Inl e \<Rightarrow> Inl e
      | Inr vs' \<Rightarrow> range_props props vs')"

definition UIConfig :: "(string, string) alist \<Rightarrow> Config \<Rightarrow> panic + Config" where
  \<comment> \<open>\<^verbatim>\<open>make(map[template.JS]template.JS, len(props))\<close> is an empty map, not the nil map\<close>
  "UIConfig props c =
     (case range_props (DAList.impl_of props) (Some Map.empty) of
        Inl e \<Rightarrow> Inl e
      | Inr vs \<Rightarrow> Inr (c\<lparr>Config.UIConfig := vs\<rparr>))"

definition BeforeScript :: "string \<Rightarrow> Config \<Rightarrow> panic + Config" where
  "BeforeScript js c = Inr (c\<lparr>Config.BeforeScript := JS js\<rparr>)"

definition AfterScript :: "string \<Rightarrow> Config \<Rightarrow> panic + Config" where
  "AfterScript js c = Inr (c\<lparr>Config.AfterScript := JS js\<rparr>)"

subsection \<open>The constructor\<close>

text \<open>\<^verbatim>\<open>for _, fn := range configFns { fn(&config) }\<close>; a panic of an option ends the run.\<close>

fun range_configFns :: "(Config \<Rightarrow> panic + Config) list \<Rightarrow> Config \<Rightarrow> panic + Config" where
  "range_configFns [] config = Inr config"
| "range_configFns (fn # configFns) config =
     (case fn config of
        Inl e \<Rightarrow> Inl e
      | Inr config' \<Rightarrow> range_configFns configFns config')"

text \<open>
  The composite literal of \<^verbatim>\<open>newConfig\<close> names fifteen fields; the five it leaves out
  (\<^verbatim>\<open>InstanceName\<close>, the two scripts, \<^verbatim>\<open>Plugins\<close>, \<^verbatim>\<open>UIConfig\<close>) take the zero value
  of their type: the empty string, the nil slice, the nil map.
\<close>

definition newConfig :: "(Config \<Rightarrow> panic + Config) list \<Rightarrow> panic + Config" where
  "newConfig configFns =
     (case range_configFns configFns
        \<lparr>Config.URL = ''doc.json'',
         URLs = [],
         DocExpansion = ''list'',
         DeepLinking = True,
         DomID = ''swagger-ui'',
         PersistAuthorization = False,
         DisplayOperationID = False,
         DefaultModelsExpandDepth = 1,
         DefaultModelExpandDepth = 1,
         DefaultModelRendering = ''example'',
         DisplayRequestDuration = False,
         ShowExtensions = False,
         ShowCommonExtensions = False,
         SupportedSubmitMethods =
           [''get'', ''put'', ''post'', ''delete'', ''options'', ''head'', ''patch'', ''trace''],
         TryItOutEnabled = False,
         InstanceName = '''',
         BeforeScript = JS '''',
         AfterScript = JS '''',
         Plugins = [],
         UIConfig = None\<rparr>
      of
        Inl e \<Rightarrow> Inl e
      | Inr config \<Rightarrow>
          Inr (if Config.InstanceName config = ''''
               then config\<lparr>Config.InstanceName := swag_Name\<rparr>
               else config))"

subsection \<open>The catalogue of options\<close>

text \<open>
  \<^verbatim>\<open>newConfig\<close> accepts any function on the record. The options the package itself
  offers are the nineteen functions above; a value of \<open>option_call\<close> is one invocation
  of one of them with its arguments, and \<open>option_fn\<close> is the function that the
  invocation returns. A sequence of invocations is handed to the constructor as
  \<open>newConfig (map option_fn calls)\<close>.
\<close>

datatype option_call =
    Call_URL string
  | Call_URLs string string
  | Call_DeepLinking bool
  | Call_DocExpansion string
  | Call_DomID string
  | Call_InstanceName string
  | Call_PersistAuthorization bool
  | Call_DisplayOperationID bool
  | Call_DefaultModelsExpandDepth int
  | Call_DefaultModelExpandDepth int
  | Call_DefaultModelRendering string
  | Call_DisplayRequestDuration bool
  | Call_ShowExtensions bool
  | Call_ShowCommonExtensions bool
  | Call_SupportedSubmitMethods "string list"
  | Call_Plugins "string list"
  | Call_UIConfig "(string, string) alist"
  | Call_BeforeScript string
  | Call_AfterScript string

fun option_fn :: "option_call \<Rightarrow> Config \<Rightarrow> panic + Config" where
  "option_fn (Call_URL url) = URL url"
| "option_fn (Call_URLs url name) = URLs url name"
| "option_fn (Call_DeepLinking deepLinking) = DeepLinking deepLinking"
| "option_fn (Call_DocExpansion docExpansion) = DocExpansion docExpansion"
| "option_fn (Call_DomID domID) = DomID domID"
| "option_fn (Call_InstanceName name) = InstanceName name"
| "option_fn (Call_PersistAuthorization b) = PersistAuthorization b"
| "option_fn (Call_DisplayOperationID b) = DisplayOperationID b"
| "option_fn (Call_DefaultModelsExpandDepth n) = DefaultModelsExpandDepth n"
| "option_fn (Call_DefaultModelExpandDepth n) = DefaultModelExpandDepth n"
| "option_fn (Call_DefaultModelRendering s) = DefaultModelRendering s"
| "option_fn (Call_DisplayRequestDuration b) = DisplayRequestDuration b"
| "option_fn (Call_ShowExtensions b) = ShowExtensions b"
| "option_fn (Call_ShowCommonExtensions b) = ShowCommonExtensions b"
| "option_fn (Call_SupportedSubmitMethods ms) = SupportedSubmitMethods ms"
| "option_fn (Call_Plugins plugins) = Plugins plugins"
| "option_fn (Call_UIConfig props) = UIConfig props"
| "option_fn (Call_BeforeScript js) = BeforeScript js"
| "option_fn (Call_AfterScript js) = AfterScript js"

text \<open>
  The vocabulary of the statements. \<open>last_or d xs\<close> is the last element of \<open>xs\<close>, and
  \<open>d\<close> when there is none: with \<open>xs\<close> the arguments of the invocations of one option,
  in call order, it is the argument of the last invocation, or the default \<open>d\<close> when
  the option was never invoked.
\<close>

definition last_or :: "'a \<Rightarrow> 'a list \<Rightarrow> 'a" where
  "last_or d xs = (if xs = [] then d else last xs)"

text \<open>
  \<open>converted props\<close> follows the words of the specification for the UI-config option,
  "each given string key and value converted to the raw-script field type": it maps the
  script \<open>JS k\<close> to the script \<open>JS v\<close> exactly when \<open>props\<close> maps \<open>k\<close> to \<open>v\<close>.
\<close>

definition converted :: "(string, string) alist \<Rightarrow> (JS \<rightharpoonup> JS)" where
  "converted props = (\<lambda>j. case j of JS k \<Rightarrow> map_option JS (DAList.lookup props k))"

section \<open>Properties\<close>

subsection \<open>The two loops inside the options\<close>

text \<open>
  The loop of \<^verbatim>\<open>Plugins\<close> stores at the indices \<open>i, i + 1, ...\<close>; none is out of range
  as long as the slice has room for the elements still to come.
\<close>

lemma range_plugins_eq:
  "i + length plugins \<le> length vs \<Longrightarrow>
   range_plugins i plugins vs =
     Inr (take i vs @ map JS plugins @ drop (i + length plugins) vs)"
proof (induction plugins arbitrary: i vs)
  case Nil
  then show ?case by simp
next
  case (Cons v plugins)
  then have lt: "i < length vs" by simp
  have "range_plugins (Suc i) plugins (vs[i := JS v]) =
        Inr (take (Suc i) (vs[i := JS v]) @ map JS plugins @
             drop (Suc i + length plugins) (vs[i := JS v]))"
    using Cons.prems by (intro Cons.IH) simp
  moreover have "take (Suc i) (vs[i := JS v]) = take i vs @ [JS v]"
    using lt by (simp add: take_Suc_conv_app_nth)
  ultimately show ?case
    using lt by (simp add: slice_store_def)
qed

lemma Plugins_eq: "Plugins plugins c = Inr (c\<lparr>Config.Plugins := map JS plugins\<rparr>)"
  by (simp add: Plugins_def range_plugins_eq)

text \<open>
  The loop of \<^verbatim>\<open>UIConfig\<close> never meets the nil map, and since no key comes twice no
  entry it has written is overwritten.
\<close>

lemma range_props_eq:
  "distinct (map fst props) \<Longrightarrow>
   range_props props (Some m) =
     Inr (Some (\<lambda>j. case j of JS k \<Rightarrow>
                 (case map_of props k of None \<Rightarrow> m j | Some v \<Rightarrow> Some (JS v))))"
proof (induction props arbitrary: m)
  case Nil
  show ?case by (auto simp: fun_eq_iff split: JS.split)
next
  case (Cons p props)
  obtain k v where p: "p = (k, v)" by (cases p)
  from Cons.prems p have notin: "map_of props k = None" and d: "distinct (map fst props)"
    by (auto simp: map_of_eq_None_iff)
  show ?case
    using notin
    by (auto simp: p map_store_def Cons.IH [OF d] fun_eq_iff split: JS.split option.split)
qed

lemma UIConfig_eq: "UIConfig props c = Inr (c\<lparr>Config.UIConfig := Some (converted props)\<rparr>)"
proof -
  have "range_props (DAList.impl_of props) (Some Map.empty) = Inr (Some (converted props))"
    by (auto simp: range_props_eq converted_def DAList.lookup.rep_eq fun_eq_iff
             split: JS.split option.split)
  then show ?thesis by (simp add: UIConfig_def)
qed

text \<open>The converted map has one key for each key given, and so as many entries.\<close>

lemma dom_converted: "dom (converted props) = JS ` fst ` set (DAList.impl_of props)"
proof -
  have "j \<in> dom (converted props) \<longleftrightarrow> j \<in> JS ` fst ` set (DAList.impl_of props)" for j
  proof (cases j)
    case (JS k)
    have "JS k \<in> dom (converted props) \<longleftrightarrow> k \<in> dom (map_of (DAList.impl_of props))"
      by (auto simp: converted_def DAList.lookup.rep_eq)
    also have "\<dots> \<longleftrightarrow> k \<in> fst ` set (DAList.impl_of props)"
      by (simp only: dom_map_of_conv_image_fst)
    also have "\<dots> \<longleftrightarrow> JS k \<in> JS ` fst ` set (DAList.impl_of props)"
      by (auto simp: image_iff)
    finally show ?thesis
      by (simp only: JS)
  qed
  then show ?thesis
    by blast
qed

lemma card_dom_converted: "card (dom (converted props)) = length (DAList.impl_of props)"
proof -
  have "card (JS ` fst ` set (DAList.impl_of props)) = card (fst ` set (DAList.impl_of props))"
    by (rule card_image) (simp add: inj_on_def)
  also have "\<dots> = length (map fst (DAList.impl_of props))"
    using distinct_card [of "map fst (DAList.impl_of props)"] by simp
  finally show ?thesis
    by (simp add: dom_converted)
qed

lemmas option_eqs =
  URL_def URLs_def DeepLinking_def DocExpansion_def DomID_def InstanceName_def
  PersistAuthorization_def DisplayOperationID_def DefaultModelsExpandDepth_def
  DefaultModelExpandDepth_def DefaultModelRendering_def DisplayRequestDuration_def
  ShowExtensions_def ShowCommonExtensions_def SupportedSubmitMethods_def Plugins_eq
  UIConfig_eq BeforeScript_def AfterScript_def

subsection \<open>The loop of the constructor\<close>

lemma range_configFns_snoc:
  "range_configFns (configFns @ [fn]) config =
     (case range_configFns configFns config of Inl e \<Rightarrow> Inl e | Inr config' \<Rightarrow> fn config')"
  by (induction configFns arbitrary: config) (auto split: sum.split)

lemma last_or_Nil: "last_or d [] = d"
  by (simp add: last_or_def)

lemma last_or_snoc: "last_or d (xs @ [x]) = x"
  by (simp add: last_or_def)

text \<open>
  What the loop leaves in each field, started on a record \<open>c0\<close> and run over invocations
  of catalogue options: by induction on the sequence from its end, with one case for
  each option as the last invocation.
\<close>

lemma range_configFns_catalog:
  "\<exists>c. range_configFns (map option_fn calls) c0 = Inr c \<and>
     Config.URL c = last_or (Config.URL c0) [u. Call_URL u \<leftarrow> calls] \<and>
     Config.URLs c =
       Config.URLs c0 @
       map (\<lambda>(u, n). \<lparr>URLsConfig.URL = u, Name = n\<rparr>) [(u, n). Call_URLs u n \<leftarrow> calls] \<and>
     Config.DocExpansion c =
       last_or (Config.DocExpansion c0) [s. Call_DocExpansion s \<leftarrow> calls] \<and>
     Config.DeepLinking c =
       last_or (Config.DeepLinking c0) [b. Call_DeepLinking b \<leftarrow> calls] \<and>
     Config.DomID c = last_or (Config.DomID c0) [s. Call_DomID s \<leftarrow> calls] \<and>
     Config.PersistAuthorization c =
       last_or (Config.PersistAuthorization c0) [b. Call_PersistAuthorization b \<leftarrow> calls] \<and>
     Config.DisplayOperationID c =
       last_or (Config.DisplayOperationID c0) [b. Call_DisplayOperationID b \<leftarrow> calls] \<and>
     Config.DefaultModelsExpandDepth c =
       last_or (Config.DefaultModelsExpandDepth c0)
         [n. Call_DefaultModelsExpandDepth n \<leftarrow> calls] \<and>
     Config.DefaultModelExpandDepth c =
       last_or (Config.DefaultModelExpandDepth c0)
         [n. Call_DefaultModelExpandDepth n \<leftarrow> calls] \<and>
     Config.DefaultModelRendering c =
       last_or (Config.DefaultModelRendering c0) [s. Call_DefaultModelRendering s \<leftarrow> calls] \<and>
     Config.DisplayRequestDuration c =
       last_or (Config.DisplayRequestDuration c0) [b. Call_DisplayRequestDuration b \<leftarrow> calls] \<and>
     Config.ShowExtensions c =
       last_or (Config.ShowExtensions c0) [b. Call_ShowExtensions b \<leftarrow> calls] \<and>
     Config.ShowCommonExtensions c =
       last_or (Config.ShowCommonExtensions c0) [b. Call_ShowCommonExtensions b \<leftarrow> calls] \<and>
     Config.SupportedSubmitMethods c =
       last_or (Config.SupportedSubmitMethods c0)
         [ms. Call_SupportedSubmitMethods ms \<leftarrow> calls] \<and>
     Config.TryItOutEnabled c = Config.TryItOutEnabled c0 \<and>
     Config.InstanceName c =
       last_or (Config.InstanceName c0) [s. Call_InstanceName s \<leftarrow> calls] \<and>
     Config.BeforeScript c =
       last_or (Config.BeforeScript c0) [JS js. Call_BeforeScript js \<leftarrow> calls] \<and>
     Config.AfterScript c =
       last_or (Config.AfterScript c0) [JS js. Call_AfterScript js \<leftarrow> calls] \<and>
     Config.Plugins c = last_or (Config.Plugins c0) [map JS ps. Call_Plugins ps \<leftarrow> calls] \<and>
     Config.UIConfig c =
       last_or (Config.UIConfig c0) [Some (converted props). Call_UIConfig props \<leftarrow> calls]"
proof (induction calls rule: rev_induct)
  case Nil
  show ?case by (simp add: last_or_Nil)
next
  case (snoc a calls)
  then obtain c where c: "range_configFns (map option_fn calls) c0 = Inr c"
    by blast
  show ?case
    using snoc.IH unfolding c
    by (cases a) (simp_all add: range_configFns_snoc c option_eqs last_or_Nil last_or_snoc)
qed

text \<open>
  The same for the constructor: the loop starts on the literal of defaults, and the
  instance name is filled in afterwards.
\<close>

lemma newConfig_catalog:
  "\<exists>c. newConfig (map option_fn calls) = Inr c \<and>
     Config.URL c = last_or ''doc.json'' [u. Call_URL u \<leftarrow> calls] \<and>
     Config.URLs c =
       map (\<lambda>(u, n). \<lparr>URLsConfig.URL = u, Name = n\<rparr>) [(u, n). Call_URLs u n \<leftarrow> calls] \<and>
     Config.DocExpansion c = last_or ''list'' [s. Call_DocExpansion s \<leftarrow> calls] \<and>
     Config.DeepLinking c = last_or True [b. Call_DeepLinking b \<leftarrow> calls] \<and>
     Config.DomID c = last_or ''swagger-ui'' [s. Call_DomID s \<leftarrow> calls] \<and>
     Config.PersistAuthorization c = last_or False [b. Call_PersistAuthorization b \<leftarrow> calls] \<and>
     Config.DisplayOperationID c = last_or False [b. Call_DisplayOperationID b \<leftarrow> calls] \<and>
     Config.DefaultModelsExpandDepth c =
       last_or 1 [n. Call_DefaultModelsExpandDepth n \<leftarrow> calls] \<and>
     Config.DefaultModelExpandDepth c =
       last_or 1 [n. Call_DefaultModelExpandDepth n \<leftarrow> calls] \<and>
     Config.DefaultModelRendering c =
       last_or ''example'' [s. Call_DefaultModelRendering s \<leftarrow> calls] \<and>
     Config.DisplayRequestDuration c =
       last_or False [b. Call_DisplayRequestDuration b \<leftarrow> calls] \<and>
     Config.ShowExtensions c = last_or False [b. Call_ShowExtensions b \<leftarrow> calls] \<and>
     Config.ShowCommonExtensions c = last_or False [b. Call_ShowCommonExtensions b \<leftarrow> calls] \<and>
     Config.SupportedSubmitMethods c =
       last_or [''get'', ''put'', ''post'', ''delete'', ''options'', ''head'', ''patch'', ''trace'']
         [ms. Call_SupportedSubmitMethods ms \<leftarrow> calls] \<and>
     Config.TryItOutEnabled c = False \<and>
     Config.InstanceName c =
       (if last_or '''' [s. Call_InstanceName s \<leftarrow> calls] = '''' then swag_Name
        else last_or '''' [s. Call_InstanceName s \<leftarrow> calls]) \<and>
     Config.BeforeScript c = last_or (JS '''') [JS js. Call_BeforeScript js \<leftarrow> calls] \<and>
     Config.AfterScript c = last_or (JS '''') [JS js. Call_AfterScript js \<leftarrow> calls] \<and>
     Config.Plugins c = last_or [] [map JS ps. Call_Plugins ps \<leftarrow> calls] \<and>
     Config.UIConfig c = last_or None [Some (converted props). Call_UIConfig props \<leftarrow> calls]"
proof -
  let ?d = "\<lparr>Config.URL = ''doc.json'', URLs = [], DocExpansion = ''list'', DeepLinking = True,
     DomID = ''swagger-ui'', PersistAuthorization = False, DisplayOperationID = False,
     DefaultModelsExpandDepth = 1, DefaultModelExpandDepth = 1,
     DefaultModelRendering = ''example'', DisplayRequestDuration = False,
     ShowExtensions = False, ShowCommonExtensions = False,
     SupportedSubmitMethods =
       [''get'', ''put'', ''post'', ''delete'', ''options'', ''head'', ''patch'', ''trace''],
     TryItOutEnabled = False, InstanceName = '''', BeforeScript = JS '''',
     AfterScript = JS '''', Plugins = [], UIConfig = None\<rparr>"
  from range_configFns_catalog [of calls ?d]
  obtain c0 where run: "range_configFns (map option_fn calls) ?d = Inr c0"
    and fields: "Config.URL c0 = last_or ''doc.json'' [u. Call_URL u \<leftarrow> calls]"
      "Config.URLs c0 =
         map (\<lambda>(u, n). \<lparr>URLsConfig.URL = u, Name = n\<rparr>) [(u, n). Call_URLs u n \<leftarrow> calls]"
      "Config.DocExpansion c0 = last_or ''list'' [s. Call_DocExpansion s \<leftarrow> calls]"
      "Config.DeepLinking c0 = last_or True [b. Call_DeepLinking b \<leftarrow> calls]"
      "Config.DomID c0 = last_or ''swagger-ui'' [s. Call_DomID s \<leftarrow> calls]"
      "Config.PersistAuthorization c0 = last_or False [b. Call_PersistAuthorization b \<leftarrow> calls]"
      "Config.DisplayOperationID c0 = last_or False [b. Call_DisplayOperationID b \<leftarrow> calls]"
      "Config.DefaultModelsExpandDepth c0 =
         last_or 1 [n. Call_DefaultModelsExpandDepth n \<leftarrow> calls]"
      "Config.DefaultModelExpandDepth c0 =
         last_or 1 [n. Call_DefaultModelExpandDepth n \<leftarrow> calls]"
      "Config.DefaultModelRendering c0 =
         last_or ''example'' [s. Call_DefaultModelRendering s \<leftarrow> calls]"
      "Config.DisplayRequestDuration c0 =
         last_or False [b. Call_DisplayRequestDuration b \<leftarrow> calls]"
      "Config.ShowExtensions c0 = last_or False [b. Call_ShowExtensions b \<leftarrow> calls]"
      "Config.ShowCommonExtensions c0 = last_or False [b. Call_ShowCommonExtensions b \<leftarrow> calls]"
      "Config.SupportedSubmitMethods c0 =
         last_or [''get'', ''put'', ''post'', ''delete'', ''options'', ''head'', ''patch'', ''trace'']
           [ms. Call_SupportedSubmitMethods ms \<leftarrow> calls]"
      "Config.TryItOutEnabled c0 = False"
      "Config.BeforeScript c0 = last_or (JS '''') [JS js. Call_BeforeScript js \<leftarrow> calls]"
      "Config.AfterScript c0 = last_or (JS '''') [JS js. Call_AfterScript js \<leftarrow> calls]"
      "Config.Plugins c0 = last_or [] [map JS ps. Call_Plugins ps \<leftarrow> calls]"
      "Config.UIConfig c0 =
         last_or None [Some (converted props). Call_UIConfig props \<leftarrow> calls]"
    and name: "Config.InstanceName c0 = last_or '''' [s. Call_InstanceName s \<leftarrow> calls]"
    by auto
  have "newConfig (map option_fn calls) =
        Inr (if Config.InstanceName c0 = '''' then c0\<lparr>Config.InstanceName := swag_Name\<rparr> else c0)"
    by (simp add: newConfig_def run)
  then show ?thesis
    using fields name by auto
qed

subsection \<open>Construction without options\<close>

text \<open>
  Claim C1. Constructed from no option at all, the record holds the documented default
  in every field: the primary URL \<open>doc.json\<close>, no named URL, expansion \<open>list\<close>, deep
  linking on, the anchor \<open>swagger-ui\<close>, both depths 1, rendering \<open>example\<close>, the other
  toggles and try-it-out off, the eight submit methods, empty scripts, no plugin and no
  UI-config map. The instance name, empty after the literal, has been filled with
  \<open>swag.Name\<close>.
\<close>

theorem newConfig_no_options:
  "newConfig [] =
     Inr \<lparr>Config.URL = ''doc.json'',
          URLs = [],
          DocExpansion = ''list'',
          DeepLinking = True,
          DomID = ''swagger-ui'',
          PersistAuthorization = False,
          DisplayOperationID = False,
          DefaultModelsExpandDepth = 1,
          DefaultModelExpandDepth = 1,
          DefaultModelRendering = ''example'',
          DisplayRequestDuration = False,
          ShowExtensions = False,
          ShowCommonExtensions = False,
          SupportedSubmitMethods =
            [''get'', ''put'', ''post'', ''delete'', ''options'', ''head'', ''patch'', ''trace''],
          TryItOutEnabled = False,
          InstanceName = swag_Name,
          BeforeScript = JS '''',
          AfterScript = JS '''',
          Plugins = [],
          UIConfig = None\<rparr>"
  by (simp add: newConfig_def)

subsection \<open>The instance name\<close>

text \<open>
  Claim C2. Whatever functions are passed as options, a record that \<^verbatim>\<open>newConfig\<close>
  returns has a non-empty instance name. For every sequence of catalogue options the
  constructor returns a record, and its instance name is the argument of the last
  invocation of \<^verbatim>\<open>InstanceName\<close> when that is a non-empty string; when it is the
  empty string, or the option was never invoked, it is \<open>swag.Name\<close>.
\<close>

theorem newConfig_InstanceName_backfill:
  "(newConfig configFns = Inr c' \<longrightarrow> Config.InstanceName c' \<noteq> '''') \<and>
   (\<exists>c. newConfig (map option_fn calls) = Inr c \<and>
        Config.InstanceName c \<noteq> '''' \<and>
        Config.InstanceName c =
          (if last_or '''' [name. Call_InstanceName name \<leftarrow> calls] = '''' then swag_Name
           else last_or '''' [name. Call_InstanceName name \<leftarrow> calls]))"
proof
  show "newConfig configFns = Inr c' \<longrightarrow> Config.InstanceName c' \<noteq> ''''"
    by (auto simp: newConfig_def swag_Name_def split: sum.splits if_splits)
next
  from newConfig_catalog [of calls]
  obtain c where c: "newConfig (map option_fn calls) = Inr c"
    and name: "Config.InstanceName c =
      (if last_or '''' [name. Call_InstanceName name \<leftarrow> calls] = '''' then swag_Name
       else last_or '''' [name. Call_InstanceName name \<leftarrow> calls])"
    by blast
  from name have "Config.InstanceName c \<noteq> ''''"
    by (simp add: swag_Name_def split: if_splits)
  with c name
  show "\<exists>c. newConfig (map option_fn calls) = Inr c \<and>
        Config.InstanceName c \<noteq> '''' \<and>
        Config.InstanceName c =
          (if last_or '''' [name. Call_InstanceName name \<leftarrow> calls] = '''' then swag_Name
           else last_or '''' [name. Call_InstanceName name \<leftarrow> calls])"
    by blast
qed

theorem newConfig_InstanceName_backfill_witness:
  "(\<exists>c'. newConfig [InstanceName ''''] = Inr c' \<and> Config.InstanceName c' \<noteq> '''') \<and>
   (\<exists>c. newConfig [InstanceName ''v1'', DomID ''docs'', InstanceName ''''] = Inr c \<and>
        Config.InstanceName c = ''swagger'') \<and>
   (\<exists>c. newConfig [InstanceName '''', InstanceName ''v2'', DomID ''docs''] = Inr c \<and>
        Config.InstanceName c = ''v2'')"
proof (intro conjI)
  obtain c' where run: "newConfig [InstanceName ''''] = Inr c'"
    by (simp add: newConfig_def InstanceName_def)
  from newConfig_InstanceName_backfill [of "[InstanceName '''']" c'] run
  have "Config.InstanceName c' \<noteq> ''''"
    by simp
  with run show "\<exists>c'. newConfig [InstanceName ''''] = Inr c' \<and> Config.InstanceName c' \<noteq> ''''"
    by blast
next
  from newConfig_InstanceName_backfill
    [of _ _ "[Call_InstanceName ''v1'', Call_DomID ''docs'', Call_InstanceName '''']"]
  show "\<exists>c. newConfig [InstanceName ''v1'', DomID ''docs'', InstanceName ''''] = Inr c \<and>
        Config.InstanceName c = ''swagger''"
    by (auto simp: last_or_def swag_Name_def)
next
  from newConfig_InstanceName_backfill
    [of _ _ "[Call_InstanceName '''', Call_InstanceName ''v2'', Call_DomID ''docs'']"]
  show "\<exists>c. newConfig [InstanceName '''', InstanceName ''v2'', DomID ''docs''] = Inr c \<and>
        Config.InstanceName c = ''v2''"
    by (auto simp: last_or_def)
qed

subsection \<open>Scalar options: the last write\<close>

text \<open>
  Claim C3, as amended. The options are applied strictly in the order given. For every
  scalar option other than \<^verbatim>\<open>InstanceName\<close> the field of the returned record holds the
  argument of the last invocation of that option (and the default when it was never
  invoked), so of two invocations with different values the later one is in effect.
  For \<^verbatim>\<open>InstanceName\<close> the same holds when the last value is not empty; an empty last
  value is replaced by \<open>swag.Name\<close>.
\<close>

theorem scalar_options_last_write:
  "\<exists>c. newConfig (map option_fn calls) = Inr c \<and>
     Config.URL c = last_or ''doc.json'' [u. Call_URL u \<leftarrow> calls] \<and>
     Config.DocExpansion c = last_or ''list'' [s. Call_DocExpansion s \<leftarrow> calls] \<and>
     Config.DeepLinking c = last_or True [b. Call_DeepLinking b \<leftarrow> calls] \<and>
     Config.DomID c = last_or ''swagger-ui'' [s. Call_DomID s \<leftarrow> calls] \<and>
     Config.PersistAuthorization c = last_or False [b. Call_PersistAuthorization b \<leftarrow> calls] \<and>
     Config.DisplayOperationID c = last_or False [b. Call_DisplayOperationID b \<leftarrow> calls] \<and>
     Config.DefaultModelsExpandDepth c =
       last_or 1 [n. Call_DefaultModelsExpandDepth n \<leftarrow> calls] \<and>
     Config.DefaultModelExpandDepth c =
       last_or 1 [n. Call_DefaultModelExpandDepth n \<leftarrow> calls] \<and>
     Config.DefaultModelRendering c =
       last_or ''example'' [s. Call_DefaultModelRendering s \<leftarrow> calls] \<and>
     Config.DisplayRequestDuration c =
       last_or False [b. Call_DisplayRequestDuration b \<leftarrow> calls] \<and>
     Config.ShowExtensions c = last_or False [b. Call_ShowExtensions b \<leftarrow> calls] \<and>
     Config.ShowCommonExtensions c = last_or False [b. Call_ShowCommonExtensions b \<leftarrow> calls] \<and>
     Config.BeforeScript c = last_or (JS '''') [JS js. Call_BeforeScript js \<leftarrow> calls] \<and>
     Config.AfterScript c = last_or (JS '''') [JS js. Call_AfterScript js \<leftarrow> calls] \<and>
     Config.InstanceName c =
       (if last_or '''' [name. Call_InstanceName name \<leftarrow> calls] = '''' then swag_Name
        else last_or '''' [name. Call_InstanceName name \<leftarrow> calls])"
  using newConfig_catalog [of calls] by (elim exE conjE) (intro exI conjI; assumption)

theorem scalar_options_last_write_witness:
  "\<exists>c. newConfig
          [URL ''a.json'', DeepLinking False, DefaultModelsExpandDepth 3, URL ''b.json'',
           DocExpansion ''full'', DomID ''one'', DeepLinking True, DocExpansion ''none'',
           DomID ''two'', DefaultModelsExpandDepth (- 1), InstanceName ''v1'',
           InstanceName ''v2''] = Inr c \<and>
        Config.URL c = ''b.json'' \<and>
        Config.DeepLinking c = True \<and>
        Config.DocExpansion c = ''none'' \<and>
        Config.DomID c = ''two'' \<and>
        Config.DefaultModelsExpandDepth c = - 1 \<and>
        Config.InstanceName c = ''v2''"
  using scalar_options_last_write
    [of "[Call_URL ''a.json'', Call_DeepLinking False, Call_DefaultModelsExpandDepth 3,
          Call_URL ''b.json'', Call_DocExpansion ''full'', Call_DomID ''one'',
          Call_DeepLinking True, Call_DocExpansion ''none'', Call_DomID ''two'',
          Call_DefaultModelsExpandDepth (- 1), Call_InstanceName ''v1'',
          Call_InstanceName ''v2'']"]
  by (auto simp: last_or_def)

text \<open>
  Claim C3 as it was stated fails for the scalar option \<^verbatim>\<open>InstanceName\<close>: invoked with
  \<open>docs\<close> and then with the empty string, the last value is the empty string, and the
  returned record holds \<open>swagger\<close>.
\<close>

theorem InstanceName_last_write_counterexample:
  "map_sum id Config.InstanceName (newConfig [InstanceName ''docs'', InstanceName '''']) =
     Inr ''swagger''"
  by (simp add: newConfig_def InstanceName_def swag_Name_def)

subsection \<open>Options that replace a list or a map\<close>

text \<open>
  Claim C4. \<^verbatim>\<open>SupportedSubmitMethods\<close>, \<^verbatim>\<open>Plugins\<close> and \<^verbatim>\<open>UIConfig\<close> replace and never
  merge. In the returned record the submit methods are exactly the argument of the last
  invocation of \<^verbatim>\<open>SupportedSubmitMethods\<close>, with nothing of the eight defaults left; the
  plugins are exactly the strings of the last invocation of \<^verbatim>\<open>Plugins\<close>, as scripts; the
  UI-config map is exactly the map of the last invocation of \<^verbatim>\<open>UIConfig\<close>, keys and
  values as scripts. An option that was never invoked leaves the default.
\<close>

theorem replacing_options_last_argument:
  "\<exists>c. newConfig (map option_fn calls) = Inr c \<and>
     Config.SupportedSubmitMethods c =
       last_or [''get'', ''put'', ''post'', ''delete'', ''options'', ''head'', ''patch'', ''trace'']
         [ms. Call_SupportedSubmitMethods ms \<leftarrow> calls] \<and>
     Config.Plugins c = last_or [] [map JS ps. Call_Plugins ps \<leftarrow> calls] \<and>
     Config.UIConfig c = last_or None [Some (converted props). Call_UIConfig props \<leftarrow> calls]"
  using newConfig_catalog [of calls] by (elim exE conjE) (intro exI conjI; assumption)

theorem replacing_options_last_argument_witness:
  "\<exists>c. newConfig
          [SupportedSubmitMethods [''get'', ''post''], Plugins [''P1''],
           UIConfig (DAList.update ''y'' ''2'' DAList.empty), URL ''a.json'',
           SupportedSubmitMethods [''head''], Plugins [''P2'', ''P3''],
           UIConfig (DAList.update ''x'' ''1'' DAList.empty)] = Inr c \<and>
        Config.SupportedSubmitMethods c = [''head''] \<and>
        Config.Plugins c = [JS ''P2'', JS ''P3''] \<and>
        Config.UIConfig c = Some (converted (DAList.update ''x'' ''1'' DAList.empty)) \<and>
        converted (DAList.update ''x'' ''1'' DAList.empty) (JS ''x'') = Some (JS ''1'') \<and>
        converted (DAList.update ''x'' ''1'' DAList.empty) (JS ''y'') = None"
  using replacing_options_last_argument
    [of "[Call_SupportedSubmitMethods [''get'', ''post''], Call_Plugins [''P1''],
          Call_UIConfig (DAList.update ''y'' ''2'' DAList.empty), Call_URL ''a.json'',
          Call_SupportedSubmitMethods [''head''], Call_Plugins [''P2'', ''P3''],
          Call_UIConfig (DAList.update ''x'' ''1'' DAList.empty)]"]
  by (auto simp: last_or_def converted_def DAList.lookup_update)

subsection \<open>The option that appends\<close>

text \<open>
  Claim C5. The named URLs of the returned record are the \<open>(url, name)\<close> pairs of the
  invocations of \<^verbatim>\<open>URLs\<close>, one entry for each invocation and in the order of the
  invocations, whatever other options come before, between or after them: \<open>N\<close>
  invocations give a list of length \<open>N\<close>.
\<close>

theorem URLs_appends_in_call_order:
  "\<exists>c. newConfig (map option_fn calls) = Inr c \<and>
     Config.URLs c =
       map (\<lambda>(url, name). \<lparr>URLsConfig.URL = url, Name = name\<rparr>)
         [(url, name). Call_URLs url name \<leftarrow> calls] \<and>
     length (Config.URLs c) = length [(url, name). Call_URLs url name \<leftarrow> calls]"
proof -
  from newConfig_catalog [of calls]
  obtain c where c: "newConfig (map option_fn calls) = Inr c"
    and urls: "Config.URLs c =
       map (\<lambda>(url, name). \<lparr>URLsConfig.URL = url, Name = name\<rparr>)
         [(url, name). Call_URLs url name \<leftarrow> calls]"
    by blast
  from urls
  have "length (Config.URLs c) = length [(url, name). Call_URLs url name \<leftarrow> calls]"
    by (simp only: length_map)
  with c urls show ?thesis
    by blast
qed

theorem URLs_appends_in_call_order_witness:
  "\<exists>c. newConfig [URLs ''a.json'' ''A'', DeepLinking False, URLs ''b.json'' ''B''] = Inr c \<and>
        Config.URLs c =
          [\<lparr>URLsConfig.URL = ''a.json'', Name = ''A''\<rparr>,
           \<lparr>URLsConfig.URL = ''b.json'', Name = ''B''\<rparr>] \<and>
        length (Config.URLs c) = 2"
  using URLs_appends_in_call_order
    [of "[Call_URLs ''a.json'' ''A'', Call_DeepLinking False, Call_URLs ''b.json'' ''B'']"]
  by auto

subsection \<open>No error path\<close>

text \<open>
  Claim C6. No catalogue option panics, on any argument and any record: it returns the
  mutated record and nothing else. The constructor returns a record for every sequence
  of catalogue options. Nothing is validated: an expansion mode or rendering mode that
  is no member of the enumeration, a negative depth and an empty URL reach the returned
  record as they were given.
\<close>

theorem options_and_newConfig_total:
  "(\<exists>c'. option_fn a c0 = Inr c') \<and>
   (\<exists>c. newConfig (map option_fn calls) = Inr c) \<and>
   (\<exists>c. newConfig
          [DocExpansion docExpansion, DefaultModelRendering defaultModelRendering,
           DefaultModelsExpandDepth defaultModelsExpandDepth,
           DefaultModelExpandDepth defaultModelExpandDepth, URL url] = Inr c \<and>
        Config.DocExpansion c = docExpansion \<and>
        Config.DefaultModelRendering c = defaultModelRendering \<and>
        Config.DefaultModelsExpandDepth c = defaultModelsExpandDepth \<and>
        Config.DefaultModelExpandDepth c = defaultModelExpandDepth \<and>
        Config.URL c = url)"
proof (intro conjI)
  show "\<exists>c'. option_fn a c0 = Inr c'"
    by (cases a) (simp_all add: option_eqs)
next
  from newConfig_catalog [of calls]
  show "\<exists>c. newConfig (map option_fn calls) = Inr c"
    by blast
next
  show "\<exists>c. newConfig
          [DocExpansion docExpansion, DefaultModelRendering defaultModelRendering,
           DefaultModelsExpandDepth defaultModelsExpandDepth,
           DefaultModelExpandDepth defaultModelExpandDepth, URL url] = Inr c \<and>
        Config.DocExpansion c = docExpansion \<and>
        Config.DefaultModelRendering c = defaultModelRendering \<and>
        Config.DefaultModelsExpandDepth c = defaultModelsExpandDepth \<and>
        Config.DefaultModelExpandDepth c = defaultModelExpandDepth \<and>
        Config.URL c = url"
    by (simp add: newConfig_def DocExpansion_def DefaultModelRendering_def
        DefaultModelsExpandDepth_def DefaultModelExpandDepth_def URL_def)
qed

theorem options_and_newConfig_total_witness:
  "(\<exists>c'. Plugins [''p'', ''q'']
           \<lparr>Config.URL = ''spec.yaml'', URLs = [], DocExpansion = ''full'', DeepLinking = False,
            DomID = ''ui'', PersistAuthorization = True, DisplayOperationID = False,
            DefaultModelsExpandDepth = 0, DefaultModelExpandDepth = 2,
            DefaultModelRendering = ''model'', DisplayRequestDuration = False,
            ShowExtensions = True, ShowCommonExtensions = False,
            SupportedSubmitMethods = [''get''], TryItOutEnabled = False, InstanceName = ''v1'',
            BeforeScript = JS ''a()'', AfterScript = JS ''b()'', Plugins = [JS ''P0''],
            UIConfig = Some [JS ''k'' \<mapsto> JS ''0'']\<rparr> = Inr c') \<and>
   (\<exists>c. newConfig [UIConfig DAList.empty, Plugins [], DocExpansion ''sideways''] = Inr c) \<and>
   (\<exists>c. newConfig
          [DocExpansion ''sideways'', DefaultModelRendering ''bogus'',
           DefaultModelsExpandDepth (- 7), DefaultModelExpandDepth (- 1), URL ''''] = Inr c \<and>
        Config.DocExpansion c = ''sideways'' \<and>
        Config.DefaultModelRendering c = ''bogus'' \<and>
        Config.DefaultModelsExpandDepth c = - 7 \<and>
        Config.DefaultModelExpandDepth c = - 1 \<and>
        Config.URL c = '''')"
  using options_and_newConfig_total
    [of "Call_Plugins [''p'', ''q'']"
        "\<lparr>Config.URL = ''spec.yaml'', URLs = [], DocExpansion = ''full'', DeepLinking = False,
          DomID = ''ui'', PersistAuthorization = True, DisplayOperationID = False,
          DefaultModelsExpandDepth = 0, DefaultModelExpandDepth = 2,
          DefaultModelRendering = ''model'', DisplayRequestDuration = False,
          ShowExtensions = True, ShowCommonExtensions = False,
          SupportedSubmitMethods = [''get''], TryItOutEnabled = False, InstanceName = ''v1'',
          BeforeScript = JS ''a()'', AfterScript = JS ''b()'', Plugins = [JS ''P0''],
          UIConfig = Some [JS ''k'' \<mapsto> JS ''0'']\<rparr>"
        "[Call_UIConfig DAList.empty, Call_Plugins [], Call_DocExpansion ''sideways'']"
        "''sideways''" "''bogus''" "- 7" "- 1" "''''"]
  by simp

subsection \<open>Two options, and the rest untouched\<close>

text \<open>
  Claim C7. Constructed from \<^verbatim>\<open>URL("custom.yaml")\<close> and \<^verbatim>\<open>DeepLinking(false)\<close>, in this
  order, the record has the primary URL \<open>custom.yaml\<close> and deep linking off, and every
  other field is as in the record constructed from no option.
\<close>

theorem newConfig_URL_DeepLinking:
  "newConfig [URL ''custom.yaml'', DeepLinking False] =
     Inr \<lparr>Config.URL = ''custom.yaml'',
          URLs = [],
          DocExpansion = ''list'',
          DeepLinking = False,
          DomID = ''swagger-ui'',
          PersistAuthorization = False,
          DisplayOperationID = False,
          DefaultModelsExpandDepth = 1,
          DefaultModelExpandDepth = 1,
          DefaultModelRendering = ''example'',
          DisplayRequestDuration = False,
          ShowExtensions = False,
          ShowCommonExtensions = False,
          SupportedSubmitMethods =
            [''get'', ''put'', ''post'', ''delete'', ''options'', ''head'', ''patch'', ''trace''],
          TryItOutEnabled = False,
          InstanceName = swag_Name,
          BeforeScript = JS '''',
          AfterScript = JS '''',
          Plugins = [],
          UIConfig = None\<rparr>"
  by (simp add: newConfig_def URL_def DeepLinking_def)

subsection \<open>Conversion to scripts\<close>

text \<open>
  Claim C8. Constructed from \<^verbatim>\<open>UIConfig\<close> of the map with the one entry \<open>x\<close> to \<open>1\<close>, the
  record has a UI-config map with exactly one entry, from the script \<open>x\<close> to the script
  \<open>1\<close>. In general \<^verbatim>\<open>UIConfig\<close> puts in place of the map of the record, whatever it
  was, the converted map, which has an entry for each entry given and no other; and
  \<^verbatim>\<open>Plugins\<close> puts in place of the plugins the given strings as scripts, as many and in
  the same order.
\<close>

theorem UIConfig_Plugins_convert:
  "(\<exists>c m. newConfig [UIConfig (DAList.update ''x'' ''1'' DAList.empty)] = Inr c \<and>
          Config.UIConfig c = Some m \<and> m = [JS ''x'' \<mapsto> JS ''1''] \<and> card (dom m) = 1) \<and>
   UIConfig props c0 = Inr (c0\<lparr>Config.UIConfig := Some (converted props)\<rparr>) \<and>
   converted props (JS k) = map_option JS (DAList.lookup props k) \<and>
   card (dom (converted props)) = length (DAList.impl_of props) \<and>
   Plugins plugins c0 = Inr (c0\<lparr>Config.Plugins := map JS plugins\<rparr>)"
proof (intro conjI)
  have "converted (DAList.update ''x'' ''1'' DAList.empty) = [JS ''x'' \<mapsto> JS ''1'']"
    by (auto simp: converted_def fun_eq_iff DAList.lookup_update split: JS.split)
  then show "\<exists>c m. newConfig [UIConfig (DAList.update ''x'' ''1'' DAList.empty)] = Inr c \<and>
          Config.UIConfig c = Some m \<and> m = [JS ''x'' \<mapsto> JS ''1''] \<and> card (dom m) = 1"
    by (simp add: newConfig_def UIConfig_eq)
next
  show "UIConfig props c0 = Inr (c0\<lparr>Config.UIConfig := Some (converted props)\<rparr>)"
    by (rule UIConfig_eq)
next
  show "converted props (JS k) = map_option JS (DAList.lookup props k)"
    by (simp add: converted_def)
next
  show "card (dom (converted props)) = length (DAList.impl_of props)"
    by (rule card_dom_converted)
next
  show "Plugins plugins c0 = Inr (c0\<lparr>Config.Plugins := map JS plugins\<rparr>)"
    by (rule Plugins_eq)
qed

theorem UIConfig_Plugins_convert_witness:
  "(\<exists>c. UIConfig (DAList.update ''a'' ''1'' (DAList.update ''b'' ''2'' DAList.empty))
          \<lparr>Config.URL = ''spec.yaml'', URLs = [], DocExpansion = ''full'', DeepLinking = False,
           DomID = ''ui'', PersistAuthorization = True, DisplayOperationID = False,
           DefaultModelsExpandDepth = 0, DefaultModelExpandDepth = 2,
           DefaultModelRendering = ''model'', DisplayRequestDuration = False,
           ShowExtensions = True, ShowCommonExtensions = False,
           SupportedSubmitMethods = [''get''], TryItOutEnabled = False, InstanceName = ''v1'',
           BeforeScript = JS ''a()'', AfterScript = JS ''b()'', Plugins = [JS ''P0''],
           UIConfig = Some [JS ''k'' \<mapsto> JS ''0'']\<rparr> = Inr c \<and>
        Config.UIConfig c =
          Some (converted (DAList.update ''a'' ''1'' (DAList.update ''b'' ''2'' DAList.empty))) \<and>
        Config.Plugins c = [JS ''P0'']) \<and>
   converted (DAList.update ''a'' ''1'' (DAList.update ''b'' ''2'' DAList.empty)) (JS ''b'') =
     Some (JS ''2'') \<and>
   converted (DAList.update ''a'' ''1'' (DAList.update ''b'' ''2'' DAList.empty)) (JS ''k'') = None \<and>
   card (dom (converted (DAList.update ''a'' ''1'' (DAList.update ''b'' ''2'' DAList.empty)))) = 2 \<and>
   (\<exists>c. Plugins [''p'', ''q'', ''p'']
          \<lparr>Config.URL = ''spec.yaml'', URLs = [], DocExpansion = ''full'', DeepLinking = False,
           DomID = ''ui'', PersistAuthorization = True, DisplayOperationID = False,
           DefaultModelsExpandDepth = 0, DefaultModelExpandDepth = 2,
           DefaultModelRendering = ''model'', DisplayRequestDuration = False,
           ShowExtensions = True, ShowCommonExtensions = False,
           SupportedSubmitMethods = [''get''], TryItOutEnabled = False, InstanceName = ''v1'',
           BeforeScript = JS ''a()'', AfterScript = JS ''b()'', Plugins = [JS ''P0''],
           UIConfig = Some [JS ''k'' \<mapsto> JS ''0'']\<rparr> = Inr c \<and>
        Config.Plugins c = [JS ''p'', JS ''q'', JS ''p''])"
  using UIConfig_Plugins_convert
    [of "DAList.update ''a'' ''1'' (DAList.update ''b'' ''2'' DAList.empty)"
        "\<lparr>Config.URL = ''spec.yaml'', URLs = [], DocExpansion = ''full'', DeepLinking = False,
          DomID = ''ui'', PersistAuthorization = True, DisplayOperationID = False,
          DefaultModelsExpandDepth = 0, DefaultModelExpandDepth = 2,
          DefaultModelRendering = ''model'', DisplayRequestDuration = False,
          ShowExtensions = True, ShowCommonExtensions = False,
          SupportedSubmitMethods = [''get''], TryItOutEnabled = False, InstanceName = ''v1'',
          BeforeScript = JS ''a()'', AfterScript = JS ''b()'', Plugins = [JS ''P0''],
          UIConfig = Some [JS ''k'' \<mapsto> JS ''0'']\<rparr>"
        "''b''" "[''p'', ''q'', ''p'']"]
    UIConfig_Plugins_convert
    [of "DAList.update ''a'' ''1'' (DAList.update ''b'' ''2'' DAList.empty)" _ "''k''"]
  by (simp add: DAList.lookup_update DAList.update.rep_eq DAList.empty.rep_eq)

subsection \<open>Try-it-out\<close>

text \<open>
  Claim C9. No catalogue option writes the field \<^verbatim>\<open>TryItOutEnabled\<close>: each returns a
  record in which the field is what it was. So the record constructed from any sequence
  of catalogue options has try-it-out off, its default.
\<close>

theorem TryItOutEnabled_never_set:
  "(\<exists>c'. option_fn a c0 = Inr c' \<and> Config.TryItOutEnabled c' = Config.TryItOutEnabled c0) \<and>
   (\<exists>c. newConfig (map option_fn calls) = Inr c \<and> Config.TryItOutEnabled c = False)"
proof
  show "\<exists>c'. option_fn a c0 = Inr c' \<and> Config.TryItOutEnabled c' = Config.TryItOutEnabled c0"
    by (cases a) (simp_all add: option_eqs)
next
  from newConfig_catalog [of calls]
  show "\<exists>c. newConfig (map option_fn calls) = Inr c \<and> Config.TryItOutEnabled c = False"
    by blast
qed

theorem TryItOutEnabled_never_set_witness:
  "(\<exists>c'. DisplayRequestDuration True
           \<lparr>Config.URL = ''spec.yaml'', URLs = [], DocExpansion = ''full'', DeepLinking = False,
            DomID = ''ui'', PersistAuthorization = True, DisplayOperationID = False,
            DefaultModelsExpandDepth = 0, DefaultModelExpandDepth = 2,
            DefaultModelRendering = ''model'', DisplayRequestDuration = False,
            ShowExtensions = True, ShowCommonExtensions = False,
            SupportedSubmitMethods = [''get''], TryItOutEnabled = True, InstanceName = ''v1'',
            BeforeScript = JS ''a()'', AfterScript = JS ''b()'', Plugins = [JS ''P0''],
            UIConfig = Some [JS ''k'' \<mapsto> JS ''0'']\<rparr> = Inr c' \<and>
         Config.TryItOutEnabled c' = True) \<and>
   (\<exists>c. newConfig
          [DisplayRequestDuration True, SupportedSubmitMethods [''get''], DeepLinking True,
           ShowExtensions True] = Inr c \<and>
        Config.TryItOutEnabled c = False)"
  using TryItOutEnabled_never_set
    [of "Call_DisplayRequestDuration True"
        "\<lparr>Config.URL = ''spec.yaml'', URLs = [], DocExpansion = ''full'', DeepLinking = False,
          DomID = ''ui'', PersistAuthorization = True, DisplayOperationID = False,
          DefaultModelsExpandDepth = 0, DefaultModelExpandDepth = 2,
          DefaultModelRendering = ''model'', DisplayRequestDuration = False,
          ShowExtensions = True, ShowCommonExtensions = False,
          SupportedSubmitMethods = [''get''], TryItOutEnabled = True, InstanceName = ''v1'',
          BeforeScript = JS ''a()'', AfterScript = JS ''b()'', Plugins = [JS ''P0''],
          UIConfig = Some [JS ''k'' \<mapsto> JS ''0'']\<rparr>"
        "[Call_DisplayRequestDuration True, Call_SupportedSubmitMethods [''get''],
          Call_DeepLinking True, Call_ShowExtensions True]"]
  by simp

subsection \<open>No submit method\<close>

text \<open>
  Claim C10. \<^verbatim>\<open>SupportedSubmitMethods\<close> invoked with no argument, as the last invocation
  of that option, leaves the empty list in the returned record, of length 0: the eight
  defaults are gone and are not restored.
\<close>

theorem SupportedSubmitMethods_no_arguments:
  "\<exists>c. newConfig (map option_fn (calls @ [Call_SupportedSubmitMethods []])) = Inr c \<and>
        Config.SupportedSubmitMethods c = [] \<and>
        length (Config.SupportedSubmitMethods c) = 0"
proof -
  from newConfig_catalog [of "calls @ [Call_SupportedSubmitMethods []]"]
  obtain c where c: "newConfig (map option_fn (calls @ [Call_SupportedSubmitMethods []])) = Inr c"
    and ms: "Config.SupportedSubmitMethods c =
       last_or [''get'', ''put'', ''post'', ''delete'', ''options'', ''head'', ''patch'', ''trace'']
         [ms. Call_SupportedSubmitMethods ms \<leftarrow> calls @ [Call_SupportedSubmitMethods []]]"
    by blast
  from ms have "Config.SupportedSubmitMethods c = []"
    by (simp add: last_or_snoc)
  with c show ?thesis
    by simp
qed

theorem SupportedSubmitMethods_no_arguments_witness:
  "(\<exists>c. newConfig [SupportedSubmitMethods []] = Inr c \<and>
        Config.SupportedSubmitMethods c = [] \<and>
        length (Config.SupportedSubmitMethods c) = 0) \<and>
   (\<exists>c. newConfig [SupportedSubmitMethods [''get'', ''post''], SupportedSubmitMethods []] = Inr c \<and>
        Config.SupportedSubmitMethods c = [] \<and>
        length (Config.SupportedSubmitMethods c) = 0)"
  using SupportedSubmitMethods_no_arguments [of "[]"]
    SupportedSubmitMethods_no_arguments [of "[Call_SupportedSubmitMethods [''get'', ''post'']]"]
  by simp

end
